theory Spec2Isabelle
  imports Complex_Main "HOL-Library.Sublist" "HOL-Library.Char_ord" "HOL-Library.List_Lexorder"
begin

section \<open>Python strings in main.py\<close>

text \<open>
  A Python string is a sequence of Unicode code points, and \<^verbatim>\<open>main.py\<close> looks inside the
  characters (\<^verbatim>\<open>strip\<close>, \<^verbatim>\<open>isalnum\<close>), so its strings are lists of code points. \<open>lit\<close>
  embeds a literal of the source.
\<close>

type_synonym pystr = "nat list"

definition lit :: "string \<Rightarrow> pystr" where
  "lit s = map of_char s"

text \<open>
  \<^verbatim>\<open>str.isspace\<close>, which \<^verbatim>\<open>strip\<close> and \<^verbatim>\<open>rstrip\<close> without argument use: the white space of
  ASCII and U+0085, U+00A0, U+1680, U+2000 to U+200A, U+2028, U+2029, U+202F, U+205F and
  U+3000.
\<close>

definition py_isspace :: "nat \<Rightarrow> bool" where
  "py_isspace c =
     ((9 \<le> c \<and> c \<le> 13) \<or> (28 \<le> c \<and> c \<le> 32) \<or> c = 0x85 \<or> c = 0xA0 \<or> c = 0x1680
      \<or> (0x2000 \<le> c \<and> c \<le> 0x200A) \<or> c = 0x2028 \<or> c = 0x2029 \<or> c = 0x202F
      \<or> c = 0x205F \<or> c = 0x3000)"

text \<open>
  \<^verbatim>\<open>str.isalnum\<close>. On ASCII it accepts the digits and the letters. Beyond ASCII it is
  decided by the Unicode character database of the Python runtime, which is no part of this
  program: that table is the argument \<open>isalnum\<close>.
\<close>

definition py_isalnum :: "(nat \<Rightarrow> bool) \<Rightarrow> nat \<Rightarrow> bool" where
  "py_isalnum isalnum c =
     (if c < 128 then (48 \<le> c \<and> c \<le> 57) \<or> (65 \<le> c \<and> c \<le> 90) \<or> (97 \<le> c \<and> c \<le> 122)
      else isalnum c)"

definition py_lstrip :: "pystr \<Rightarrow> pystr" where
  "py_lstrip s = dropWhile py_isspace s"

definition py_rstrip :: "pystr \<Rightarrow> pystr" where
  "py_rstrip s = rev (dropWhile py_isspace (rev s))"

definition py_strip :: "pystr \<Rightarrow> pystr" where
  "py_strip s = py_rstrip (py_lstrip s)"

text \<open>Decimal rendering of a non-negative integer, as an f-string does.\<close>

function str_nat :: "nat \<Rightarrow> pystr" where
  "str_nat n =
     (if n < 10 then [48 + n]
      else str_nat (n div 10) @ [48 + n mod 10])"
  by pat_completeness auto
termination
  by (relation "measure (\<lambda>n. n)") auto

declare str_nat.simps [simp del]

subsection \<open>Judge-label sanitisation (main.py, line 194)\<close>

text \<open>
  \<^verbatim>\<open>safe_name = "".join(c for c in judge_text if c.isalnum() or c in (' ', '.')).rstrip()\<close>
\<close>

definition keeps :: "(nat \<Rightarrow> bool) \<Rightarrow> nat \<Rightarrow> bool" where
  "keeps isalnum c = (py_isalnum isalnum c \<or> c \<in> {0x20, 0x2E})"

definition safe_name :: "(nat \<Rightarrow> bool) \<Rightarrow> pystr \<Rightarrow> pystr" where
  "safe_name isalnum judge_text = py_rstrip (filter (keeps isalnum) judge_text)"

subsection \<open>Paths (\<^verbatim>\<open>pathlib\<close> on POSIX)\<close>

text \<open>
  \<^verbatim>\<open>str(Path(a) / b)\<close>. An absolute \<open>b\<close> replaces \<open>a\<close>; the joined text is split into its
  root (\<^verbatim>\<open>/\<close>, or \<^verbatim>\<open>//\<close> for exactly two leading slashes) and its components, of which the
  empty ones and \<^verbatim>\<open>.\<close> are dropped; the empty path prints as \<^verbatim>\<open>.\<close>.
\<close>

fun split_sep :: "nat \<Rightarrow> pystr \<Rightarrow> pystr list" where
  "split_sep sep [] = [[]]"
| "split_sep sep (c # cs) =
     (if c = sep then [] # split_sep sep cs
      else (case split_sep sep cs of [] \<Rightarrow> [[c]] | p # ps \<Rightarrow> (c # p) # ps))"

fun join_sep :: "pystr \<Rightarrow> pystr list \<Rightarrow> pystr" where
  "join_sep sep [] = []"
| "join_sep sep [x] = x"
| "join_sep sep (x # y # ys) = x @ sep @ join_sep sep (y # ys)"

definition splitroot :: "pystr \<Rightarrow> pystr \<times> pystr" where
  "splitroot path =
     (if take 1 path \<noteq> lit ''/'' then ([], path)
      else if take 1 (drop 1 path) \<noteq> lit ''/'' \<or> take 1 (drop 2 path) = lit ''/''
        then (lit ''/'', drop 1 path)
      else (lit ''//'', drop 2 path))"

definition path_str :: "pystr \<Rightarrow> pystr" where
  "path_str path =
     (case splitroot path of
        (rootpart, rel) \<Rightarrow>
          let tail = filter (\<lambda>x. x \<noteq> [] \<and> x \<noteq> lit ''.'') (split_sep 0x2F rel);
              s = rootpart @ join_sep (lit ''/'') tail
          in if s = [] then lit ''.'' else s)"

definition path_join :: "pystr \<Rightarrow> pystr \<Rightarrow> pystr" where
  "path_join a b =
     path_str (if take 1 b = lit ''/'' then b
               else if a = [] \<or> take 1 (rev a) = lit ''/'' then a @ b
               else a @ lit ''/'' @ b)"

definition OUTPUT_DIR :: pystr where
  "OUTPUT_DIR = path_str (lit ''outputs'')"

definition PDF_DIR :: pystr where
  "PDF_DIR = path_join OUTPUT_DIR (lit ''pdfs'')"

section \<open>The web job store and runner (flask_app.py)\<close>

text \<open>
  \<^verbatim>\<open>JOBS\<close> is a module-level dictionary from job identifier to a dictionary with the
  keys \<^verbatim>\<open>status\<close>, \<^verbatim>\<open>command\<close> and, once the run has ended, either \<^verbatim>\<open>output_file\<close> and
  \<^verbatim>\<open>pdfs\<close> or \<^verbatim>\<open>error\<close>. A key that is absent is \<open>None\<close> here.
\<close>

text \<open>
  \<^verbatim>\<open>flask_app.py\<close> never looks inside a character: it concatenates, compares and sorts
  strings and tests prefixes and suffixes. Its strings are kept as \<^typ>\<open>string\<close>, the bytes
  of the UTF-8 encoding, on which these operations agree with those on code points.
\<close>

text \<open>\<^verbatim>\<open>' '.join(cmd)\<close>\<close>

fun join_space :: "string list \<Rightarrow> string" where
  "join_space [] = []"
| "join_space [x] = x"
| "join_space (x # y # ys) = x @ '' '' @ join_space (y # ys)"

datatype job_status = pending | running | completed | failed

record job =
  status :: job_status
  command :: string
  output_file :: "string option"
  pdfs :: "string list option"
  error :: "string option"

type_synonym jobs = "string \<rightharpoonup> job"

text \<open>
  \<^verbatim>\<open>run_job\<close> (lines 104--130). The form is a map: \<^verbatim>\<open>request.form.get(k)\<close> is \<open>None\<close> for
  a field the request does not carry. The identifier \<^verbatim>\<open>uuid.uuid4().hex[:10]\<close> is an
  argument. \<^verbatim>\<open>' '.join(cmd)\<close> raises \<^verbatim>\<open>TypeError\<close> when an element is \<open>None\<close>; the
  dictionary display is evaluated before the store into \<^verbatim>\<open>JOBS\<close>, which is then
  unchanged. The result is the new registry, the arguments of the thread that was started,
  and the redirect target.
\<close>

definition build_cmd :: "string \<Rightarrow> (string \<rightharpoonup> string) \<Rightarrow> string option list" where
  "build_cmd job_id form =
     [Some ''python'', Some ''main.py'', Some ''--causelist'',
      Some ''--state'', form ''state'',
      Some ''--district'', form ''district'',
      Some ''--complex'', form ''complex'',
      Some ''--date'', form ''date'',
      Some ''--output'', Some (''web_'' @ job_id),
      Some ''--headless'',
      Some ''--download-pdf'']"

definition run_job ::
  "string \<Rightarrow> (string \<rightharpoonup> string) \<Rightarrow> jobs \<Rightarrow> string + (jobs \<times> (string \<times> string list) \<times> string)" where
  "run_job job_id form JOBS =
     (case those (build_cmd job_id form) of
        None \<Rightarrow> Inl ''TypeError''
      | Some cmd \<Rightarrow>
          Inr (JOBS(job_id \<mapsto>
                 \<lparr>status = pending, command = join_space cmd,
                  output_file = None, pdfs = None, error = None\<rparr>),
               (job_id, cmd),
               ''/status/'' @ job_id))"

text \<open>
  \<^verbatim>\<open>run_scraper_task\<close> (lines 18--66). What the thread meets outside the program is a
  record: the clock reading, the outcome of \<^verbatim>\<open>subprocess.run\<close> (\<open>Inl\<close> the message of an
  exception it raised), the names in \<^verbatim>\<open>outputs/\<close> when it is globbed, and the entries of
  \<^verbatim>\<open>outputs/pdfs/\<close> (\<open>None\<close> when the directory does not exist), each with its
  \<^verbatim>\<open>st_mtime\<close> or \<open>None\<close> when \<^verbatim>\<open>stat\<close> raises. Times are real numbers of seconds.
\<close>

record proc_result =
  returncode :: int
  stderr :: string

record task_env =
  time_time :: real
  subprocess_run :: "string list \<Rightarrow> string + proc_result"
  output_dir :: "string list"
  pdf_dir :: "(string \<times> real option) list option"

text \<open>
  \<^verbatim>\<open>web_{job_id}_*.json\<close> and \<^verbatim>\<open>*.pdf\<close>; the identifier is hexadecimal, so the pattern
  has no metacharacter besides the star.
\<close>

definition glob_web_json :: "string \<Rightarrow> string \<Rightarrow> bool" where
  "glob_web_json job_id name =
     (prefix (''web_'' @ job_id @ ''_'') name \<and> suffix ''.json'' name
      \<and> length (''web_'' @ job_id @ ''_'') + length ''.json'' \<le> length name)"

definition glob_pdf :: "string \<Rightarrow> bool" where
  "glob_pdf name = suffix ''.pdf'' name"

text \<open>Lines 47--52: the loop over the sorted PDFs; a \<^verbatim>\<open>stat\<close> that raises skips the file.\<close>

fun collect_pdfs :: "real \<Rightarrow> (string \<times> real option) list \<Rightarrow> string list" where
  "collect_pdfs start_time [] = []"
| "collect_pdfs start_time ((name, st) # ps) =
     (case st of
        None \<Rightarrow> collect_pdfs start_time ps
      | Some st_mtime \<Rightarrow>
          if st_mtime \<ge> start_time - 1 then name # collect_pdfs start_time ps
          else collect_pdfs start_time ps)"

text \<open>Lines 43--52.\<close>

definition correlate_pdfs :: "real \<Rightarrow> (string \<times> real option) list option \<Rightarrow> string list" where
  "correlate_pdfs start_time dir =
     (case dir of
        None \<Rightarrow> []
      | Some entries \<Rightarrow>
          collect_pdfs start_time (sort_key fst (filter (\<lambda>p. glob_pdf (fst p)) entries)))"

text \<open>
  The body of the \<^verbatim>\<open>try\<close>, after the status is set: \<open>Inl\<close> is the text of the exception
  that reaches the handler, \<open>Inr\<close> the output file and the PDFs.
\<close>

definition scraper_try :: "task_env \<Rightarrow> string \<Rightarrow> string list \<Rightarrow> string + (string \<times> string list)" where
  "scraper_try env job_id cmd =
     (let start_time = time_time env in
      case subprocess_run env cmd of
        Inl e \<Rightarrow> Inl e
      | Inr result \<Rightarrow>
          if returncode result \<noteq> 0 then Inl (stderr result)
          else
            let files = sort (filter (glob_web_json job_id) (output_dir env)) in
            if files = [] then Inl ''Scraper ran but did not produce an output file.''
            else Inr (last files, correlate_pdfs start_time (pdf_dir env)))"

text \<open>
  With no entry for the identifier, the first statement raises \<^verbatim>\<open>KeyError\<close>, the handler
  raises it again and the thread ends with the registry as it was.
\<close>

definition run_scraper_task :: "task_env \<Rightarrow> string \<Rightarrow> string list \<Rightarrow> jobs \<Rightarrow> string + jobs" where
  "run_scraper_task env job_id cmd JOBS =
     (case JOBS job_id of
        None \<Rightarrow> Inl ''KeyError''
      | Some j0 \<Rightarrow>
          let j = j0\<lparr>status := running\<rparr> in
          Inr (JOBS(job_id \<mapsto>
            (case scraper_try env job_id cmd of
               Inl e \<Rightarrow> j\<lparr>status := failed, error := Some e\<rparr>
             | Inr (f, ps) \<Rightarrow> j\<lparr>status := completed, output_file := Some f, pdfs := Some ps\<rparr>))))"

section \<open>The browser as the scraper meets it (main.py)\<close>

text \<open>
  Every call on the Playwright page can raise. The two handlers of each flow catch
  \<^verbatim>\<open>PlaywrightTimeoutError\<close> and \<^verbatim>\<open>Exception\<close>; both carry their message.
\<close>

datatype exc = PlaywrightTimeoutError pystr | Exception pystr

fun exc_str :: "exc \<Rightarrow> pystr" where
  "exc_str (PlaywrightTimeoutError m) = m"
| "exc_str (Exception m) = m"

text \<open>Statements in sequence: the second runs only when the first did not raise.\<close>

fun andthen :: "exc + 'a \<Rightarrow> ('a \<Rightarrow> exc + 'b) \<Rightarrow> exc + 'b" where
  "andthen (Inl e) f = Inl e"
| "andthen (Inr x) f = f x"

datatype log_record = INFO pystr | ERROR pystr

record response =
  ok :: bool
  resp_status :: nat

text \<open>
  A result row: its text, the text of each \<^verbatim>\<open>td\<close> cell, and the \<^verbatim>\<open>href\<close> of its PDF
  anchor (\<open>None\<close> when \<^verbatim>\<open>query_selector\<close> finds no anchor, \<open>Some None\<close> when the
  attribute is absent). A judge link: its \<^verbatim>\<open>href\<close> and its text.
\<close>

record row_elem =
  row_inner_text :: "exc + pystr"
  row_cells :: "exc + (exc + pystr) list"
  row_pdf_anchor :: "exc + (exc + pystr option) option"

record link_elem =
  link_get_attribute :: "exc + pystr option"
  link_inner_text :: "exc + pystr"

text \<open>
  The page of one run: the outcome of each call the flows make, in the order of the
  source. A call that takes a value of the caller's is a function of that value.
  \<open>time_int i\<close> is \<^verbatim>\<open>int(time.time())\<close> read while the \<open>i\<close>-th row is handled.
  \<open>write_bytes\<close> stands for \<^verbatim>\<open>mkdir\<close>, \<^verbatim>\<open>response.body()\<close> and \<^verbatim>\<open>write_bytes\<close>.
\<close>

record page =
  goto :: "exc + unit"
  cnr_wait_for_selector :: "exc + unit"
  cnr_fill :: "pystr \<Rightarrow> exc + unit"
  submit_query_selector :: "exc + (exc + unit) option"
  cnr_wait_for_load_state :: "exc + unit"
  rows_query_selector_all :: "exc + row_elem list"
  time_int :: "nat \<Rightarrow> nat"
  state_select_option :: "pystr \<Rightarrow> exc + unit"
  state_wait_for_load_state :: "exc + unit"
  district_select_option :: "pystr \<Rightarrow> exc + unit"
  district_wait_for_load_state :: "exc + unit"
  complex_select_option :: "pystr \<Rightarrow> exc + unit"
  date_fill :: "pystr \<Rightarrow> exc + unit"
  submit_click :: "exc + unit"
  submit_wait_for_load_state :: "exc + unit"
  links_query_selector_all :: "exc + link_elem list"
  request_get :: "pystr \<Rightarrow> exc + response"
  write_bytes :: "pystr \<Rightarrow> exc + unit"

text \<open>Truth value of an optional string, and the string itself.\<close>

fun py_bool :: "pystr option \<Rightarrow> bool" where
  "py_bool None = False"
| "py_bool (Some s) = (s \<noteq> [])"

fun py_str :: "pystr option \<Rightarrow> pystr" where
  "py_str None = []"
| "py_str (Some s) = s"

subsection \<open>\<^verbatim>\<open>download_attachment\<close> (lines 86--101)\<close>

definition download_attachment :: "page \<Rightarrow> pystr \<Rightarrow> pystr \<Rightarrow> pystr option \<times> log_record list" where
  "download_attachment page url filename =
     (let lg = [INFO (lit ''Downloading '' @ url @ lit '' to '' @ filename @ lit ''...'')] in
      case request_get page url of
        Inl e \<Rightarrow> (None, lg @ [ERROR (lit ''Exception during download of '' @ url @ lit '': '' @ exc_str e)])
      | Inr response \<Rightarrow>
          if ok response then
            (case write_bytes page filename of
               Inl e \<Rightarrow>
                 (None, lg @ [ERROR (lit ''Exception during download of '' @ url @ lit '': '' @ exc_str e)])
             | Inr _ \<Rightarrow> (Some filename, lg @ [INFO (lit ''Successfully saved '' @ filename)]))
          else
            (None, lg @ [ERROR (lit ''Failed to download ('' @ str_nat (resp_status response)
                                  @ lit '') from '' @ url)]))"

subsection \<open>\<^verbatim>\<open>find_case_by_cnr\<close> (lines 103--151)\<close>

record case_row =
  row_text :: pystr
  serial :: pystr
  court :: pystr
  pdf_link :: "pystr option"
  downloaded_pdf :: "pystr option"

text \<open>Lines 108--119: from navigation to the query for the rows.\<close>

definition cnr_navigate :: "page \<Rightarrow> pystr \<Rightarrow> exc + row_elem list" where
  "cnr_navigate page cnr =
     andthen (goto page) (\<lambda>_.
     andthen (cnr_wait_for_selector page) (\<lambda>_.
     andthen (cnr_fill page cnr) (\<lambda>_.
     andthen (submit_query_selector page) (\<lambda>submit_btn.
     andthen (case submit_btn of None \<Rightarrow> Inr () | Some click \<Rightarrow> click) (\<lambda>_.
     andthen (cnr_wait_for_load_state page) (\<lambda>_.
     rows_query_selector_all page))))))"

text \<open>\<^verbatim>\<open>cells[i].inner_text().strip() if len(cells) > i else "N/A"\<close>\<close>

definition cell_text :: "(exc + pystr) list \<Rightarrow> nat \<Rightarrow> exc + pystr" where
  "cell_text cells i =
     (if length cells > i then andthen (cells ! i) (\<lambda>t. Inr (py_strip t)) else Inr (lit ''N/A''))"

text \<open>Lines 123--136: \<open>Inr None\<close> is \<^verbatim>\<open>continue\<close>.\<close>

definition cnr_row_item :: "pystr \<Rightarrow> row_elem \<Rightarrow> exc + case_row option" where
  "cnr_row_item cnr r =
     andthen (row_inner_text r) (\<lambda>t.
       let txt = py_strip t in
       if txt = [] \<or> \<not> sublist cnr txt then Inr None
       else
         andthen (row_cells r) (\<lambda>cells.
         andthen (cell_text cells 0) (\<lambda>serial.
         andthen (cell_text cells 1) (\<lambda>court.
         andthen (row_pdf_anchor r) (\<lambda>pdf_anchor.
         andthen (case pdf_anchor of None \<Rightarrow> Inr None | Some href \<Rightarrow> href) (\<lambda>pdf_link.
         Inr (Some \<lparr>row_text = txt, serial = serial, court = court, pdf_link = pdf_link,
                    downloaded_pdf = None\<rparr>)))))))"

text \<open>
  The loop of lines 122--144 over the rows not yet handled, with the results and the log
  so far. An exception leaves the loop with the results appended before it.
\<close>

fun cnr_rows ::
  "page \<Rightarrow> pystr \<Rightarrow> bool \<Rightarrow> nat \<Rightarrow> row_elem list \<Rightarrow> case_row list \<Rightarrow> log_record list
     \<Rightarrow> (exc + unit) \<times> case_row list \<times> log_record list" where
  "cnr_rows page cnr should_download i [] results lg = (Inr (), results, lg)"
| "cnr_rows page cnr should_download i (r # rs) results lg =
     (case cnr_row_item cnr r of
        Inl e \<Rightarrow> (Inl e, results, lg)
      | Inr None \<Rightarrow> cnr_rows page cnr should_download (Suc i) rs results lg
      | Inr (Some result_item) \<Rightarrow>
          if should_download \<and> py_bool (pdf_link result_item) then
            (case download_attachment page (py_str (pdf_link result_item))
                    (path_join PDF_DIR (cnr @ lit ''_'' @ str_nat (time_int page i) @ lit ''.pdf'')) of
               (saved_path, lg') \<Rightarrow>
                 cnr_rows page cnr should_download (Suc i) rs
                   (results @ [result_item\<lparr>downloaded_pdf := saved_path\<rparr>]) (lg @ lg'))
          else cnr_rows page cnr should_download (Suc i) rs (results @ [result_item]) lg)"

text \<open>The body of the \<^verbatim>\<open>try\<close>: what it raised, if anything, the results and the log.\<close>

definition find_case_by_cnr_try ::
  "page \<Rightarrow> pystr \<Rightarrow> pystr \<Rightarrow> bool \<Rightarrow> (exc + unit) \<times> case_row list \<times> log_record list" where
  "find_case_by_cnr_try page cnr date_str should_download =
     (let lg = [INFO (lit ''Navigating to eCourts cause list page for CNR: '' @ cnr)] in
      case cnr_navigate page cnr of
        Inl e \<Rightarrow> (Inl e, [], lg)
      | Inr rows \<Rightarrow>
          cnr_rows page cnr should_download 0 rows []
            (lg @ [INFO (lit ''Found '' @ str_nat (length rows) @ lit '' potential result rows.'')]))"

text \<open>The two handlers and the \<^verbatim>\<open>return results\<close>; the log is what reaches \<^verbatim>\<open>logging\<close>.\<close>

definition find_case_by_cnr ::
  "page \<Rightarrow> pystr \<Rightarrow> pystr \<Rightarrow> bool \<Rightarrow> case_row list \<times> log_record list" where
  "find_case_by_cnr page cnr date_str should_download =
     (case find_case_by_cnr_try page cnr date_str should_download of
        (Inr _, results, lg) \<Rightarrow> (results, lg)
      | (Inl (PlaywrightTimeoutError m), results, lg) \<Rightarrow>
          (results, lg @ [ERROR (lit ''Timeout waiting for page elements. The website might be slow or selectors need updating.'')])
      | (Inl (Exception m), results, lg) \<Rightarrow>
          (results, lg @ [ERROR (lit ''An error occurred during case lookup: '' @ m)]))"

subsection \<open>\<^verbatim>\<open>download_causelist_for_complex\<close> (lines 153--206)\<close>

record judge_entry =
  judge_text :: pystr
  judge_pdf_link :: "pystr option"
  judge_downloaded_pdf :: "pystr option"

record causelist_out =
  state :: pystr
  district :: pystr
  complex :: pystr
  date :: pystr
  judges :: "judge_entry list"

text \<open>Lines 158--182: from navigation to the query for the PDF anchors.\<close>

definition causelist_navigate ::
  "page \<Rightarrow> pystr \<Rightarrow> pystr \<Rightarrow> pystr \<Rightarrow> pystr \<Rightarrow> exc + link_elem list" where
  "causelist_navigate page state_label district_label complex_name date_str =
     andthen (goto page) (\<lambda>_.
     andthen (state_select_option page state_label) (\<lambda>_.
     andthen (state_wait_for_load_state page) (\<lambda>_.
     andthen (if district_label \<noteq> [] then
                andthen (district_select_option page district_label) (\<lambda>_.
                district_wait_for_load_state page)
              else Inr ()) (\<lambda>_.
     andthen (if complex_name \<noteq> [] then complex_select_option page complex_name
              else Inr ()) (\<lambda>_.
     andthen (date_fill page date_str) (\<lambda>_.
     andthen (submit_click page) (\<lambda>_.
     andthen (submit_wait_for_load_state page) (\<lambda>_.
     links_query_selector_all page))))))))"

text \<open>Lines 186--190: the entry of the link at index \<open>idx\<close>, before any download.\<close>

definition judge_link_entry :: "nat \<Rightarrow> link_elem \<Rightarrow> exc + judge_entry" where
  "judge_link_entry idx link =
     andthen (link_get_attribute link) (\<lambda>href.
     andthen (link_inner_text link) (\<lambda>t.
       let stripped = py_strip t;
           judge_text = (if stripped \<noteq> [] then stripped else lit ''Judge_'' @ str_nat (idx + 1))
       in Inr \<lparr>judge_text = judge_text, judge_pdf_link = href, judge_downloaded_pdf = None\<rparr>))"

text \<open>The loop of lines 185--199, with the judges appended to \<^verbatim>\<open>out["judges"]\<close> so far.\<close>

fun judges_loop ::
  "(nat \<Rightarrow> bool) \<Rightarrow> page \<Rightarrow> pystr \<Rightarrow> pystr \<Rightarrow> bool \<Rightarrow> nat \<Rightarrow> link_elem list \<Rightarrow> judge_entry list
     \<Rightarrow> log_record list \<Rightarrow> (exc + unit) \<times> judge_entry list \<times> log_record list" where
  "judges_loop isalnum page complex_name date_str download_pdfs idx [] js lg = (Inr (), js, lg)"
| "judges_loop isalnum page complex_name date_str download_pdfs idx (link # links) js lg =
     (case judge_link_entry idx link of
        Inl e \<Rightarrow> (Inl e, js, lg)
      | Inr entry \<Rightarrow>
          if download_pdfs \<and> py_bool (judge_pdf_link entry) then
            (case download_attachment page (py_str (judge_pdf_link entry))
                    (path_join PDF_DIR (date_str @ lit ''_'' @ complex_name @ lit ''_''
                               @ safe_name isalnum (judge_text entry) @ lit ''.pdf'')) of
               (saved_path, lg') \<Rightarrow>
                 judges_loop isalnum page complex_name date_str download_pdfs (Suc idx) links
                   (js @ [entry\<lparr>judge_downloaded_pdf := saved_path\<rparr>]) (lg @ lg'))
          else
            judges_loop isalnum page complex_name date_str download_pdfs (Suc idx) links
              (js @ [entry]) lg)"

text \<open>The body of the \<^verbatim>\<open>try\<close>: what it raised, if anything, the judges and the log.\<close>

definition causelist_try ::
  "(nat \<Rightarrow> bool) \<Rightarrow> page \<Rightarrow> pystr \<Rightarrow> pystr \<Rightarrow> pystr \<Rightarrow> pystr \<Rightarrow> bool
     \<Rightarrow> (exc + unit) \<times> judge_entry list \<times> log_record list" where
  "causelist_try isalnum page state_label district_label complex_name date_str download_pdfs =
     (let lg = [INFO (lit ''Fetching cause list for '' @ complex_name @ lit '', '' @ district_label
                      @ lit '', '' @ state_label @ lit '' on '' @ date_str)] in
      case causelist_navigate page state_label district_label complex_name date_str of
        Inl e \<Rightarrow> (Inl e, [], lg)
      | Inr judge_links \<Rightarrow>
          judges_loop isalnum page complex_name date_str download_pdfs 0 judge_links []
            (lg @ [INFO (lit ''Found '' @ str_nat (length judge_links)
                         @ lit '' judge cause list PDFs.'')]))"

text \<open>The two handlers and the \<^verbatim>\<open>return out\<close>.\<close>

definition download_causelist_for_complex ::
  "(nat \<Rightarrow> bool) \<Rightarrow> page \<Rightarrow> pystr \<Rightarrow> pystr \<Rightarrow> pystr \<Rightarrow> pystr \<Rightarrow> bool \<Rightarrow> causelist_out \<times> log_record list" where
  "download_causelist_for_complex isalnum page state_label district_label complex_name date_str download_pdfs =
     (case causelist_try isalnum page state_label district_label complex_name date_str download_pdfs of
        (r, js, lg) \<Rightarrow>
          (\<lparr>state = state_label, district = district_label, complex = complex_name,
            date = date_str, judges = js\<rparr>,
           (case r of
              Inr _ \<Rightarrow> lg
            | Inl (PlaywrightTimeoutError m) \<Rightarrow>
                lg @ [ERROR (lit ''Timeout waiting for elements. The website might be slow or the selectors are outdated.'')]
            | Inl (Exception m) \<Rightarrow>
                lg @ [ERROR (lit ''An error occurred downloading the cause list: '' @ m)])))"

subsection \<open>\<^verbatim>\<open>main\<close> (lines 208--249)\<close>

text \<open>
  The parsed arguments the branches read. \<open>date_str\<close> is what \<^verbatim>\<open>get_date_to_check\<close>
  returned and \<open>ts\<close> the time stamp \<^verbatim>\<open>save_json\<close> formats. \<open>result_data\<close> is the dictionary
  of the same name: empty, or with the one key \<^verbatim>\<open>cases_found\<close> or \<^verbatim>\<open>cause_list\<close>.
  \<open>saved\<close> is the path \<^verbatim>\<open>save_json\<close> writes and returns, \<open>None\<close> when it is not called. The launch and the closing of the browser and what is printed to standard
  output are left out.
\<close>

record args =
  args_cnr :: "pystr option"
  args_causelist :: bool
  args_state :: "pystr option"
  args_district :: "pystr option"
  args_complex :: "pystr option"
  args_download_pdf :: bool
  args_output :: "pystr option"

datatype result_data = empty_result | cases_found "case_row list" | cause_list causelist_out

record main_outcome =
  result :: result_data
  saved :: "pystr option"
  logged :: "log_record list"

definition save_json :: "pystr option \<Rightarrow> pystr \<Rightarrow> pystr" where
  "save_json basename ts =
     path_join OUTPUT_DIR
       ((if py_bool basename then py_str basename else lit ''ecourts_result'')
        @ lit ''_'' @ ts @ lit ''.json'')"

definition main_branch :: "(nat \<Rightarrow> bool) \<Rightarrow> args \<Rightarrow> pystr \<Rightarrow> page \<Rightarrow> result_data \<times> log_record list" where
  "main_branch isalnum a date_str page =
     (if py_bool (args_cnr a) then
        (case find_case_by_cnr page (py_str (args_cnr a)) date_str (args_download_pdf a) of
           (cases, lg) \<Rightarrow>
             (cases_found cases,
              INFO (lit ''[*] Looking up case by CNR: '' @ py_str (args_cnr a)) # lg))
      else if args_causelist a then
        (if \<not> py_bool (args_state a) \<or> \<not> py_bool (args_district a) \<or> \<not> py_bool (args_complex a)
         then (empty_result, [ERROR (lit ''[!] --causelist requires --state, --district, and --complex'')])
         else
           (case download_causelist_for_complex isalnum page (py_str (args_state a))
                   (py_str (args_district a)) (py_str (args_complex a)) date_str
                   (args_download_pdf a) of
              (cl, lg) \<Rightarrow>
                (cause_list cl,
                 INFO (lit ''[*] Downloading cause list for '' @ py_str (args_complex a)) # lg)))
      else (empty_result, []))"

definition main :: "(nat \<Rightarrow> bool) \<Rightarrow> args \<Rightarrow> pystr \<Rightarrow> pystr \<Rightarrow> page \<Rightarrow> main_outcome" where
  "main isalnum a date_str ts page =
     (case main_branch isalnum a date_str page of
        (result_data, lg) \<Rightarrow>
          if result_data \<noteq> empty_result then
            \<lparr>result = result_data, saved = Some (save_json (args_output a) ts),
             logged = lg @ [INFO (lit ''[*] Saved output to '' @ save_json (args_output a) ts)]\<rparr>
          else \<lparr>result = result_data, saved = None, logged = lg\<rparr>)"

section \<open>Concrete inputs\<close>

definition form_no_state :: "string \<rightharpoonup> string" where
  "form_no_state =
     [''state'' \<mapsto> '''', ''district'' \<mapsto> ''New Delhi'', ''complex'' \<mapsto> ''Tis Hazari'',
      ''date'' \<mapsto> ''2025-10-18'']"

definition args_no_state :: args where
  "args_no_state =
     \<lparr>args_cnr = None, args_causelist = True, args_state = Some (lit ''''),
      args_district = Some (lit ''New Delhi''), args_complex = Some (lit ''Tis Hazari''),
      args_download_pdf = True, args_output = Some (lit ''web_0123456789'')\<rparr>"

definition matching_row :: row_elem where
  "matching_row =
     \<lparr>row_inner_text = Inr (lit ''1 District Court ABC123''),
      row_cells = Inr [Inr (lit ''1''), Inr (lit ''District Court'')],
      row_pdf_anchor = Inr None\<rparr>"

text \<open>A page on which every call succeeds: one row with the CNR, no PDF anchor.\<close>

definition ok_page :: page where
  "ok_page =
     \<lparr>goto = Inr (),
      cnr_wait_for_selector = Inr (),
      cnr_fill = (\<lambda>_. Inr ()),
      submit_query_selector = Inr (Some (Inr ())),
      cnr_wait_for_load_state = Inr (),
      rows_query_selector_all = Inr [matching_row],
      time_int = (\<lambda>_. 1760000000),
      state_select_option = (\<lambda>_. Inr ()),
      state_wait_for_load_state = Inr (),
      district_select_option = (\<lambda>_. Inr ()),
      district_wait_for_load_state = Inr (),
      complex_select_option = (\<lambda>_. Inr ()),
      date_fill = (\<lambda>_. Inr ()),
      submit_click = Inr (),
      submit_wait_for_load_state = Inr (),
      links_query_selector_all = Inr [],
      request_get = (\<lambda>_. Inr \<lparr>ok = True, resp_status = 200\<rparr>),
      write_bytes = (\<lambda>_. Inr ())\<rparr>"

definition nav_timeout_page :: page where
  "nav_timeout_page = ok_page\<lparr>goto := Inl (PlaywrightTimeoutError (lit ''Timeout 60000ms exceeded.''))\<rparr>"

definition no_rows_page :: page where
  "no_rows_page = ok_page\<lparr>rows_query_selector_all := Inr []\<rparr>"

definition settle_timeout_page :: page where
  "settle_timeout_page =
     ok_page\<lparr>cnr_wait_for_load_state := Inl (PlaywrightTimeoutError (lit ''Timeout 30000ms exceeded.''))\<rparr>"

definition state_fail_page :: page where
  "state_fail_page =
     ok_page\<lparr>state_select_option := (\<lambda>_. Inl (PlaywrightTimeoutError (lit ''Timeout 30000ms exceeded.'')))\<rparr>"

text \<open>A page on which every call raises.\<close>

definition raising_page :: page where
  "raising_page =
     \<lparr>goto = Inl (Exception (lit ''net::ERR_NAME_NOT_RESOLVED'')),
      cnr_wait_for_selector = Inl (Exception (lit ''closed'')),
      cnr_fill = (\<lambda>_. Inl (Exception (lit ''closed''))),
      submit_query_selector = Inl (Exception (lit ''closed'')),
      cnr_wait_for_load_state = Inl (Exception (lit ''closed'')),
      rows_query_selector_all = Inl (Exception (lit ''closed'')),
      time_int = (\<lambda>_. 1760000000),
      state_select_option = (\<lambda>_. Inl (Exception (lit ''closed''))),
      state_wait_for_load_state = Inl (Exception (lit ''closed'')),
      district_select_option = (\<lambda>_. Inl (Exception (lit ''closed''))),
      district_wait_for_load_state = Inl (Exception (lit ''closed'')),
      complex_select_option = (\<lambda>_. Inl (Exception (lit ''closed''))),
      date_fill = (\<lambda>_. Inl (Exception (lit ''closed''))),
      submit_click = Inl (Exception (lit ''closed'')),
      submit_wait_for_load_state = Inl (Exception (lit ''closed'')),
      links_query_selector_all = Inl (Exception (lit ''closed'')),
      request_get = (\<lambda>_. Inl (Exception (lit ''closed''))),
      write_bytes = (\<lambda>_. Inl (Exception (lit ''closed'')))\<rparr>"

text \<open>
  A table for the code points beyond ASCII: the accented Latin letters of U+00C0 to U+00FF,
  which \<^verbatim>\<open>str.isalnum\<close> accepts.
\<close>

definition accented_letters :: "nat \<Rightarrow> bool" where
  "accented_letters c =
     ((0xC0 \<le> c \<and> c \<le> 0xD6) \<or> (0xD8 \<le> c \<and> c \<le> 0xF6) \<or> (0xF8 \<le> c \<and> c \<le> 0xFF))"

text \<open>
  A run that exits with code 0 and leaves only another job's result document; two jobs
  started one second apart over the same PDF directory, each leaving its result document;
  and a run over that directory that exits with code 1.
\<close>

definition env_no_output :: task_env where
  "env_no_output =
     \<lparr>time_time = 1000,
      subprocess_run = (\<lambda>_. Inr \<lparr>returncode = 0, stderr = ''''\<rparr>),
      output_dir = [''web_ffffffffff_20251018_101500.json''],
      pdf_dir = Some []\<rparr>"




definition pending_job :: job where
  "pending_job =
     \<lparr>status = pending, command = ''python main.py'', output_file = None, pdfs = None,
      error = None\<rparr>"


section \<open>Facts about the string operations\<close>

lemma py_rstrip_decomp: "\<exists>ws. s = py_rstrip s @ ws \<and> list_all py_isspace ws"
proof -
  have "rev s = takeWhile py_isspace (rev s) @ dropWhile py_isspace (rev s)"
    by simp
  then have "s = rev (dropWhile py_isspace (rev s)) @ rev (takeWhile py_isspace (rev s))"
    by (metis rev_append rev_rev_ident)
  moreover have "list_all py_isspace (rev (takeWhile py_isspace (rev s)))"
    by (simp add: list_all_iff) (meson set_takeWhileD)
  ultimately show ?thesis
    unfolding py_rstrip_def by blast
qed

lemma py_rstrip_last: "py_rstrip s = [] \<or> \<not> py_isspace (last (py_rstrip s))"
proof (cases "dropWhile py_isspace (rev s)")
  case Nil
  then show ?thesis by (simp add: py_rstrip_def)
next
  case (Cons x xs)
  then have "\<not> py_isspace x"
    by (metis hd_dropWhile list.distinct(1) list.sel(1))
  with Cons show ?thesis by (simp add: py_rstrip_def)
qed

lemma py_rstrip_subseq: "subseq (py_rstrip s) s"
proof -
  obtain ws where "s = py_rstrip s @ ws" using py_rstrip_decomp by blast
  moreover have "subseq (py_rstrip s) (py_rstrip s @ ws)"
    by (rule subseq_rev_drop_many) simp
  ultimately show ?thesis by simp
qed

lemma space_not_ascii_alnum:
  assumes "py_isspace c" "c < 128"
  shows "\<not> ((48 \<le> c \<and> c \<le> 57) \<or> (65 \<le> c \<and> c \<le> 90) \<or> (97 \<le> c \<and> c \<le> 122))"
proof -
  from assms have "(9 \<le> c \<and> c \<le> 13) \<or> (28 \<le> c \<and> c \<le> 32)"
    unfolding py_isspace_def by arith
  then show ?thesis by arith
qed

lemma keeps_space_iff:
  assumes t: "\<forall>c. py_isspace c \<longrightarrow> \<not> isalnum c" and k: "keeps isalnum c" and s: "py_isspace c"
  shows "c = 0x20"
proof (rule ccontr)
  assume n: "c \<noteq> 0x20"
  from k n have "py_isalnum isalnum c \<or> c = 0x2E" by (simp add: keeps_def)
  then show False
  proof
    assume a: "py_isalnum isalnum c"
    show False
    proof (cases "c < 128")
      case True
      with a space_not_ascii_alnum [OF s True] show False by (simp add: py_isalnum_def)
    next
      case False
      with a have "isalnum c" by (simp add: py_isalnum_def)
      with t s show False by blast
    qed
  next
    assume "c = 0x2E"
    with s show False by (simp add: py_isspace_def)
  qed
qed

section \<open>Facts about the job runner and the flows\<close>








lemma scraper_try_no_output:
  assumes "filter (glob_web_json job_id) (output_dir env) = []"
  shows "\<exists>e. scraper_try env job_id cmd = Inl e
     \<and> (\<forall>r. subprocess_run env cmd = Inr r \<and> returncode r = 0 \<longrightarrow>
           e = ''Scraper ran but did not produce an output file.'')"
proof (cases "subprocess_run env cmd")
  case (Inl e)
  then show ?thesis by (simp add: scraper_try_def)
next
  case (Inr r)
  then show ?thesis using assms by (simp add: scraper_try_def)
qed

lemma find_case_by_cnr_navigate_raises:
  assumes "cnr_navigate page cnr = Inl e"
  shows "\<exists>m. find_case_by_cnr page cnr date_str should_download =
           ([], [INFO (lit ''Navigating to eCourts cause list page for CNR: '' @ cnr), ERROR m])"
  using assms by (cases e) (simp_all add: find_case_by_cnr_def find_case_by_cnr_try_def)

lemma cnr_navigate_early:
  assumes "goto page = Inl e \<or> cnr_wait_for_selector page = Inl e"
  shows "\<exists>e'. cnr_navigate page cnr = Inl e'"
proof (cases "goto page")
  case (Inl a)
  then show ?thesis by (simp add: cnr_navigate_def)
next
  case (Inr b)
  with assms have "cnr_wait_for_selector page = Inl e" by simp
  with Inr show ?thesis by (simp add: cnr_navigate_def)
qed

lemma find_case_by_cnr_no_rows:
  assumes "cnr_navigate page cnr = Inr []"
  shows "fst (find_case_by_cnr page cnr date_str should_download) = []"
  using assms by (simp add: find_case_by_cnr_def find_case_by_cnr_try_def)

lemma andthen_Inr_iff: "andthen x f = Inr v \<longleftrightarrow> (\<exists>u. x = Inr u \<and> f u = Inr v)"
  by (cases x) auto

lemma causelist_navigate_Inr:
  assumes "causelist_navigate page s d c dt = Inr links"
  shows "state_select_option page s = Inr () \<and> date_fill page dt = Inr ()
    \<and> submit_click page = Inr ()"
  using assms by (auto simp: causelist_navigate_def andthen_Inr_iff)

lemma causelist_navigate_mandatory:
  assumes "state_select_option page s = Inl e \<or> date_fill page dt = Inl e \<or> submit_click page = Inl e"
  shows "\<exists>e'. causelist_navigate page s d c dt = Inl e'"
proof (cases "causelist_navigate page s d c dt")
  case (Inl a)
  then show ?thesis by blast
next
  case (Inr links)
  from causelist_navigate_Inr [OF this] assms show ?thesis by auto
qed

lemma causelist_navigate_raises:
  assumes "causelist_navigate page s d c dt = Inl e"
  shows "\<exists>m. download_causelist_for_complex isalnum page s d c dt dl =
     (\<lparr>state = s, district = d, complex = c, date = dt, judges = []\<rparr>,
      [INFO (lit ''Fetching cause list for '' @ c @ lit '', '' @ d @ lit '', '' @ s @ lit '' on '' @ dt), ERROR m])"
  using assms by (cases e) (simp_all add: download_causelist_for_complex_def causelist_try_def)

section \<open>Claims\<close>

text \<open>
  C5 (amended). For every judge label, the sanitised name is the sequence of the label's
  letters and digits (the characters \<^verbatim>\<open>str.isalnum\<close> accepts), spaces and periods, in order,
  with every other character dropped and the trailing white space removed: what is cut
  from the end is white space, the result does not end in white space, every character of
  the result is a letter, digit, space or period, and, as no white space is alphanumeric in
  Unicode, what is cut is a run of spaces. On \<open>Hon'ble J. Smith/Court-2\<close> the result is
  \<open>Honble J. SmithCourt2\<close>: the slash is dropped, not replaced by a space.
\<close>

theorem C5_safe_name_allow_list:
  "(\<exists>ws. filter (\<lambda>c. py_isalnum isalnum c \<or> c = 0x20 \<or> c = 0x2E) label
            = safe_name isalnum label @ ws \<and> list_all py_isspace ws)
   \<and> (safe_name isalnum label = [] \<or> \<not> py_isspace (last (safe_name isalnum label)))
   \<and> list_all (\<lambda>c. py_isalnum isalnum c \<or> c = 0x20 \<or> c = 0x2E) (safe_name isalnum label)
   \<and> subseq (safe_name isalnum label) label
   \<and> ((\<forall>c. py_isspace c \<longrightarrow> \<not> isalnum c) \<longrightarrow>
        (\<exists>n. filter (\<lambda>c. py_isalnum isalnum c \<or> c = 0x20 \<or> c = 0x2E) label
               = safe_name isalnum label @ replicate n 0x20))
   \<and> safe_name isalnum (lit ''Hon'ble J. Smith/Court-2'') = lit ''Honble J. SmithCourt2''"
proof -
  let ?P = "\<lambda>c. py_isalnum isalnum c \<or> c = 0x20 \<or> c = 0x2E"
  have P: "keeps isalnum = ?P" by (rule ext) (simp add: keeps_def)
  define f where "f = filter ?P label"
  define r where "r = safe_name isalnum label"
  have r: "r = py_rstrip f" by (simp add: r_def f_def safe_name_def P)
  obtain ws where ws: "f = r @ ws" "list_all py_isspace ws"
    using py_rstrip_decomp [of f] unfolding r by blast
  have 1: "\<exists>ws. f = r @ ws \<and> list_all py_isspace ws"
    using ws by blast
  have 2: "r = [] \<or> \<not> py_isspace (last r)"
    using py_rstrip_last [of f] unfolding r .
  have "list_all ?P f" by (simp add: f_def list_all_iff)
  then have "list_all ?P (r @ ws)" unfolding ws(1) .
  then have k: "list_all ?P r" "list_all ?P ws" by simp_all
  have 3: "list_all ?P r" by (rule k(1))
  have 4: "subseq r label"
  proof -
    have "subseq r f" unfolding r by (rule py_rstrip_subseq)
    moreover have "subseq f label" by (simp add: f_def)
    ultimately show ?thesis by (rule subseq_order.trans)
  qed
  have 5: "(\<forall>c. py_isspace c \<longrightarrow> \<not> isalnum c) \<longrightarrow> (\<exists>n. f = r @ replicate n 0x20)"
  proof
    assume t: "\<forall>c. py_isspace c \<longrightarrow> \<not> isalnum c"
    have "c = 0x20" if "c \<in> set ws" for c
    proof -
      from that k(2) have "keeps isalnum c" by (simp add: list_all_iff P)
      moreover from that ws(2) have "py_isspace c" by (simp add: list_all_iff)
      ultimately show ?thesis using keeps_space_iff [OF t] by blast
    qed
    then have "ws = replicate (length ws) 0x20"
      by (simp add: replicate_length_same)
    then have "f = r @ replicate (length ws) 0x20" using ws(1) by metis
    then show "\<exists>n. f = r @ replicate n 0x20" by blast
  qed
  have 6: "safe_name isalnum (lit ''Hon'ble J. Smith/Court-2'') = lit ''Honble J. SmithCourt2''"
    by (simp add: safe_name_def py_rstrip_def keeps_def py_isalnum_def py_isspace_def lit_def)
  from 1 2 3 4 5 6 show ?thesis unfolding f_def r_def by blast
qed

theorem C5_safe_name_witness:
  "(\<exists>n. filter (\<lambda>c. py_isalnum accented_letters c \<or> c = 0x20 \<or> c = 0x2E)
            (lit ''Jos'' @ [0xE9, 0x2F, 0x20, 0xA0])
          = safe_name accented_letters (lit ''Jos'' @ [0xE9, 0x2F, 0x20, 0xA0]) @ replicate n 0x20)
   \<and> safe_name accented_letters (lit ''Jos'' @ [0xE9, 0x2F, 0x20, 0xA0]) = lit ''Jos'' @ [0xE9]"
proof -
  have t: "\<forall>c. py_isspace c \<longrightarrow> \<not> accented_letters c"
    by (auto simp: py_isspace_def accented_letters_def)
  have v: "safe_name accented_letters (lit ''Jos'' @ [0xE9, 0x2F, 0x20, 0xA0]) = lit ''Jos'' @ [0xE9]"
    by (simp add: safe_name_def py_rstrip_def keeps_def py_isalnum_def py_isspace_def lit_def
        accented_letters_def)
  show ?thesis
    using C5_safe_name_allow_list [of accented_letters "lit ''Jos'' @ [0xE9, 0x2F, 0x20, 0xA0]"] t v
    by blast
qed

theorem C5_example_counterexample:
  "safe_name accented_letters (lit ''Hon'ble J. Smith/Court-2'') \<noteq> lit ''Honble J. Smith Court2''"
  by (simp add: safe_name_def py_rstrip_def keeps_def py_isalnum_def py_isspace_def lit_def)



text \<open>
  C1 (amended). \<^verbatim>\<open>run_job\<close> makes no completeness check: when the form carries the four
  fields, whatever their values, a pending job entry is created and the command is
  scheduled. The check is the command line's: with \<^verbatim>\<open>--causelist\<close> and any of state,
  district or complex missing or empty, \<^verbatim>\<open>main\<close> runs no extraction, logs an error and
  writes no result document.
\<close>

theorem C1_no_validation_at_submit:
  "(form ''state'' = Some s \<and> form ''district'' = Some d \<and> form ''complex'' = Some c
      \<and> form ''date'' = Some dt \<longrightarrow>
      (\<exists>cmd. run_job job_id form JOBS =
         Inr (JOBS(job_id \<mapsto> \<lparr>status = pending, command = join_space cmd,
                                 output_file = None, pdfs = None, error = None\<rparr>),
              (job_id, cmd), ''/status/'' @ job_id)))
   \<and> (\<not> py_bool (args_cnr a) \<and> args_causelist a
        \<and> (\<not> py_bool (args_state a) \<or> \<not> py_bool (args_district a) \<or> \<not> py_bool (args_complex a))
      \<longrightarrow> main isalnum a date_str ts page =
            \<lparr>result = empty_result, saved = None,
             logged = [ERROR (lit ''[!] --causelist requires --state, --district, and --complex'')]\<rparr>)"
  by (auto simp: run_job_def build_cmd_def main_def main_branch_def)

theorem C1_no_validation_witness:
  "(\<exists>cmd. run_job ''0123456789'' form_no_state Map.empty =
         Inr (Map.empty(''0123456789'' \<mapsto> \<lparr>status = pending, command = join_space cmd,
                                 output_file = None, pdfs = None, error = None\<rparr>),
              (''0123456789'', cmd), ''/status/'' @ ''0123456789''))
   \<and> main accented_letters args_no_state (lit ''2025-10-18'') (lit ''20251018_101500'') ok_page =
            \<lparr>result = empty_result, saved = None,
             logged = [ERROR (lit ''[!] --causelist requires --state, --district, and --complex'')]\<rparr>"
  using C1_no_validation_at_submit
    [where form = form_no_state and s = "''''" and d = "''New Delhi''" and c = "''Tis Hazari''"
       and dt = "''2025-10-18''" and job_id = "''0123456789''" and JOBS = Map.empty
       and a = args_no_state and date_str = "lit ''2025-10-18''"
       and ts = "lit ''20251018_101500''" and page = ok_page and isalnum = accented_letters]
  by (simp add: form_no_state_def args_no_state_def lit_def)

theorem C1_job_created_counterexample:
  "run_job ''0123456789'' form_no_state Map.empty =
     Inr (Map.empty(''0123456789'' \<mapsto>
            \<lparr>status = pending,
             command = ''python main.py --causelist --state  --district New Delhi --complex Tis Hazari --date 2025-10-18 --output web_0123456789 --headless --download-pdf'',
             output_file = None, pdfs = None, error = None\<rparr>),
          (''0123456789'', [''python'', ''main.py'', ''--causelist'', ''--state'', '''', ''--district'', ''New Delhi'',
            ''--complex'', ''Tis Hazari'', ''--date'', ''2025-10-18'', ''--output'',
            ''web_0123456789'', ''--headless'', ''--download-pdf'']),
          ''/status/0123456789'')"
  by (simp add: run_job_def build_cmd_def form_no_state_def)

text \<open>
  C4. For every job in the registry, when no file of \<^verbatim>\<open>outputs/\<close> matches the job's
  pattern once the run has ended, \<^verbatim>\<open>run_scraper_task\<close> marks the job failed with an error
  message and attaches no result; when the scraper exited with code 0 the message is that
  of the missing output file.
\<close>

theorem C4_missing_output_fails_job:
  assumes "JOBS job_id = Some j"
    and "filter (glob_web_json job_id) (output_dir env) = []"
  shows "\<exists>e. run_scraper_task env job_id cmd JOBS =
            Inr (JOBS(job_id \<mapsto> j\<lparr>status := failed, error := Some e\<rparr>))
     \<and> (\<forall>r. subprocess_run env cmd = Inr r \<and> returncode r = 0 \<longrightarrow>
           e = ''Scraper ran but did not produce an output file.'')"
proof -
  obtain e where e: "scraper_try env job_id cmd = Inl e"
    "\<forall>r. subprocess_run env cmd = Inr r \<and> returncode r = 0 \<longrightarrow>
           e = ''Scraper ran but did not produce an output file.''"
    using scraper_try_no_output [OF assms(2)] by blast
  have "run_scraper_task env job_id cmd JOBS =
            Inr (JOBS(job_id \<mapsto> j\<lparr>status := failed, error := Some e\<rparr>))"
    using assms(1) e(1) by (simp add: run_scraper_task_def)
  with e(2) show ?thesis by blast
qed

theorem C4_missing_output_witness:
  "run_scraper_task env_no_output ''0123456789'' [''python'', ''main.py''] [''0123456789'' \<mapsto> pending_job]
     = Inr [''0123456789'' \<mapsto>
             \<lparr>status = failed, command = ''python main.py'', output_file = None, pdfs = None,
              error = Some ''Scraper ran but did not produce an output file.''\<rparr>]"
proof -
  have a: "[''0123456789'' \<mapsto> pending_job] ''0123456789'' = Some pending_job" by simp
  have b: "filter (glob_web_json ''0123456789'') (output_dir env_no_output) = []"
    by (simp add: env_no_output_def glob_web_json_def)
  have c: "subprocess_run env_no_output [''python'', ''main.py''] = Inr \<lparr>returncode = 0, stderr = ''''\<rparr>"
    by (simp add: env_no_output_def)
  show ?thesis
    using C4_missing_output_fails_job
      [of "[''0123456789'' \<mapsto> pending_job]" "''0123456789''" pending_job env_no_output
          "[''python'', ''main.py'']"] a b c
    by (auto simp: pending_job_def)
qed




text \<open>
  C2 (amended). When navigation or the wait for the CNR input raises, the lookup logs the
  error and returns the empty row list: the value it returns is the one a run that
  completed and found no row returns, so the two cases differ in the log only.
\<close>

theorem C2_failure_returns_empty_list:
  assumes "goto page = Inl e \<or> cnr_wait_for_selector page = Inl e"
  shows "fst (find_case_by_cnr page cnr date_str should_download) = []
    \<and> (\<exists>m. snd (find_case_by_cnr page cnr date_str should_download) =
          [INFO (lit ''Navigating to eCourts cause list page for CNR: '' @ cnr), ERROR m])
    \<and> (cnr_navigate page2 cnr = Inr [] \<longrightarrow>
          fst (find_case_by_cnr page2 cnr date_str should_download)
            = fst (find_case_by_cnr page cnr date_str should_download))"
proof -
  obtain e' where "cnr_navigate page cnr = Inl e'"
    using cnr_navigate_early [OF assms] by blast
  then obtain m where m: "find_case_by_cnr page cnr date_str should_download =
      ([], [INFO (lit ''Navigating to eCourts cause list page for CNR: '' @ cnr), ERROR m])"
    using find_case_by_cnr_navigate_raises by blast
  then show ?thesis
    using find_case_by_cnr_no_rows [of page2 cnr date_str should_download] by simp
qed

theorem C2_failure_witness:
  "fst (find_case_by_cnr nav_timeout_page (lit ''ABC123'') (lit ''2025-10-18'') False) = []
   \<and> fst (find_case_by_cnr no_rows_page (lit ''ABC123'') (lit ''2025-10-18'') False)
       = fst (find_case_by_cnr nav_timeout_page (lit ''ABC123'') (lit ''2025-10-18'') False)"
proof -
  have a: "goto nav_timeout_page = Inl (PlaywrightTimeoutError (lit ''Timeout 60000ms exceeded.''))
           \<or> cnr_wait_for_selector nav_timeout_page = Inl (PlaywrightTimeoutError (lit ''Timeout 60000ms exceeded.''))"
    by (simp add: nav_timeout_page_def)
  have b: "cnr_navigate no_rows_page (lit ''ABC123'') = Inr []"
    by (simp add: cnr_navigate_def no_rows_page_def ok_page_def)
  show ?thesis
    using C2_failure_returns_empty_list [OF a, where ?page2.0 = no_rows_page and cnr = "(lit ''ABC123'')"
        and date_str = "(lit ''2025-10-18'')" and should_download = False] b
    by simp
qed

theorem C2_indistinguishable_counterexample:
  "goto nav_timeout_page = Inl (PlaywrightTimeoutError (lit ''Timeout 60000ms exceeded.''))
   \<and> fst (find_case_by_cnr nav_timeout_page (lit ''ABC123'') (lit ''2025-10-18'') False) = []
   \<and> cnr_navigate no_rows_page (lit ''ABC123'') = Inr []
   \<and> fst (find_case_by_cnr no_rows_page (lit ''ABC123'') (lit ''2025-10-18'') False) = []"
  by (simp add: find_case_by_cnr_def find_case_by_cnr_try_def cnr_navigate_def
      nav_timeout_page_def no_rows_page_def ok_page_def)

text \<open>
  C6 (amended). In every lookup that reaches the wait for network quiescence, a timeout of
  that wait ends the flow: no row is read, the timeout is logged and the empty list is
  returned, whatever rows the page holds.
\<close>

theorem C6_settle_timeout_ends_lookup:
  assumes "goto page = Inr ()" "cnr_wait_for_selector page = Inr ()" "cnr_fill page cnr = Inr ()"
    and "submit_query_selector page = Inr None \<or> submit_query_selector page = Inr (Some (Inr ()))"
    and "cnr_wait_for_load_state page = Inl (PlaywrightTimeoutError m)"
  shows "find_case_by_cnr page cnr date_str should_download =
     ([], [INFO (lit ''Navigating to eCourts cause list page for CNR: '' @ cnr),
           ERROR (lit ''Timeout waiting for page elements. The website might be slow or selectors need updating.'')])"
proof -
  have "cnr_navigate page cnr = Inl (PlaywrightTimeoutError m)"
    using assms by (auto simp: cnr_navigate_def)
  then show ?thesis
    by (simp add: find_case_by_cnr_def find_case_by_cnr_try_def)
qed

theorem C6_settle_timeout_witness:
  "find_case_by_cnr settle_timeout_page (lit ''ABC123'') (lit ''2025-10-18'') False =
     ([], [INFO (lit ''Navigating to eCourts cause list page for CNR: ABC123''),
           ERROR (lit ''Timeout waiting for page elements. The website might be slow or selectors need updating.'')])"
proof -
  have a: "goto settle_timeout_page = Inr ()" "cnr_wait_for_selector settle_timeout_page = Inr ()"
    "cnr_fill settle_timeout_page (lit ''ABC123'') = Inr ()"
    "submit_query_selector settle_timeout_page = Inr None
      \<or> submit_query_selector settle_timeout_page = Inr (Some (Inr ()))"
    "cnr_wait_for_load_state settle_timeout_page = Inl (PlaywrightTimeoutError (lit ''Timeout 30000ms exceeded.''))"
    by (simp_all add: settle_timeout_page_def ok_page_def)
  show ?thesis
    using C6_settle_timeout_ends_lookup [OF a, of "lit ''2025-10-18''" False]
    by (simp add: lit_def)
qed

theorem C6_rows_dropped_counterexample:
  "cnr_wait_for_load_state settle_timeout_page = Inl (PlaywrightTimeoutError (lit ''Timeout 30000ms exceeded.''))
   \<and> rows_query_selector_all settle_timeout_page = Inr [matching_row]
   \<and> cnr_row_item (lit ''ABC123'') matching_row =
        Inr (Some \<lparr>row_text = lit ''1 District Court ABC123'', serial = lit ''1'',
                   court = lit ''District Court'', pdf_link = None, downloaded_pdf = None\<rparr>)
   \<and> fst (find_case_by_cnr settle_timeout_page (lit ''ABC123'') (lit ''2025-10-18'') False) = []
   \<and> fst (find_case_by_cnr ok_page (lit ''ABC123'') (lit ''2025-10-18'') False) =
        [\<lparr>row_text = lit ''1 District Court ABC123'', serial = lit ''1'',
          court = lit ''District Court'', pdf_link = None, downloaded_pdf = None\<rparr>]"
  by (simp add: find_case_by_cnr_def find_case_by_cnr_try_def cnr_navigate_def
      settle_timeout_page_def ok_page_def cnr_row_item_def matching_row_def cell_text_def
      py_strip_def py_lstrip_def py_rstrip_def py_isspace_def sublist_code lit_def)

text \<open>
  C9. For every page, CNR and download flag, the lookup returns the same rows and writes
  the same log for any two values of the date argument.
\<close>

theorem C9_date_is_ignored:
  "find_case_by_cnr page cnr date1 should_download = find_case_by_cnr page cnr date2 should_download"
  by (simp add: find_case_by_cnr_def find_case_by_cnr_try_def)

theorem C9_date_witness:
  "find_case_by_cnr ok_page (lit ''ABC123'') (lit ''2025-10-18'') True
     = find_case_by_cnr ok_page (lit ''ABC123'') (lit ''1999-01-01'') True"
  using C9_date_is_ignored [of ok_page "(lit ''ABC123'')" "(lit ''2025-10-18'')" True "(lit ''1999-01-01'')"] .

text \<open>
  C3 (amended). When the state selection, the date fill or the submit click raises, the
  flow logs the error and returns the result record with the submitted state, district,
  complex and date and an empty judge list; no failure value reaches the caller.
\<close>

theorem C3_mandatory_failure_returns_empty_record:
  assumes "state_select_option page s = Inl e \<or> date_fill page dt = Inl e \<or> submit_click page = Inl e"
  shows "\<exists>m. download_causelist_for_complex isalnum page s d c dt dl =
     (\<lparr>state = s, district = d, complex = c, date = dt, judges = []\<rparr>,
      [INFO (lit ''Fetching cause list for '' @ c @ lit '', '' @ d @ lit '', '' @ s @ lit '' on '' @ dt), ERROR m])"
proof -
  obtain e' where "causelist_navigate page s d c dt = Inl e'"
    using causelist_navigate_mandatory [OF assms] by blast
  then show ?thesis by (rule causelist_navigate_raises)
qed

theorem C3_mandatory_failure_witness:
  "download_causelist_for_complex accented_letters state_fail_page (lit ''Delhi'') (lit ''New Delhi'') (lit ''Tis Hazari'') (lit ''2025-10-18'') True =
     (\<lparr>state = lit ''Delhi'', district = lit ''New Delhi'', complex = lit ''Tis Hazari'', date = lit ''2025-10-18'',
       judges = []\<rparr>,
      [INFO (lit ''Fetching cause list for Tis Hazari, New Delhi, Delhi on 2025-10-18''),
       ERROR (lit ''Timeout waiting for elements. The website might be slow or the selectors are outdated.'')])"
proof -
  have a: "state_select_option state_fail_page (lit ''Delhi'') = Inl (PlaywrightTimeoutError (lit ''Timeout 30000ms exceeded.''))
     \<or> date_fill state_fail_page (lit ''2025-10-18'') = Inl (PlaywrightTimeoutError (lit ''Timeout 30000ms exceeded.''))
     \<or> submit_click state_fail_page = Inl (PlaywrightTimeoutError (lit ''Timeout 30000ms exceeded.''))"
    by (simp add: state_fail_page_def)
  have b: "snd (download_causelist_for_complex accented_letters state_fail_page (lit ''Delhi'') (lit ''New Delhi'') (lit ''Tis Hazari'') (lit ''2025-10-18'') True)
     = [INFO (lit ''Fetching cause list for Tis Hazari, New Delhi, Delhi on 2025-10-18''),
       ERROR (lit ''Timeout waiting for elements. The website might be slow or the selectors are outdated.'')]"
    by (simp add: download_causelist_for_complex_def causelist_try_def causelist_navigate_def
        state_fail_page_def ok_page_def lit_def)
  show ?thesis
    using C3_mandatory_failure_returns_empty_record
      [OF a, where isalnum = accented_letters and d = "lit ''New Delhi''"
         and c = "lit ''Tis Hazari''" and dl = True] b
    by (auto simp: lit_def)
qed

theorem C3_record_returned_counterexample:
  "state_select_option state_fail_page (lit ''Delhi'') = Inl (PlaywrightTimeoutError (lit ''Timeout 30000ms exceeded.''))
   \<and> fst (download_causelist_for_complex accented_letters state_fail_page (lit ''Delhi'') (lit ''New Delhi'') (lit ''Tis Hazari'') (lit ''2025-10-18'') True)
       = \<lparr>state = lit ''Delhi'', district = lit ''New Delhi'', complex = lit ''Tis Hazari'',
          date = lit ''2025-10-18'', judges = []\<rparr>
   \<and> causelist_navigate ok_page (lit ''Delhi'') (lit ''New Delhi'') (lit ''Tis Hazari'') (lit ''2025-10-18'') = Inr []
   \<and> fst (download_causelist_for_complex accented_letters ok_page (lit ''Delhi'') (lit ''New Delhi'') (lit ''Tis Hazari'') (lit ''2025-10-18'') True)
       = \<lparr>state = lit ''Delhi'', district = lit ''New Delhi'', complex = lit ''Tis Hazari'',
          date = lit ''2025-10-18'', judges = []\<rparr>"
  by (simp add: download_causelist_for_complex_def causelist_try_def causelist_navigate_def
      state_fail_page_def ok_page_def)

text \<open>
  C8. On every page, also one on which every call raises, each exception is caught inside
  \<^verbatim>\<open>download_causelist_for_complex\<close>, which returns a record holding exactly the submitted
  state, district, complex and date, and a list of judges.
\<close>

theorem C8_always_returns_record:
  "\<exists>js lg. download_causelist_for_complex isalnum page s d c dt dl =
     (\<lparr>state = s, district = d, complex = c, date = dt, judges = js\<rparr>, lg)"
  by (cases "causelist_try isalnum page s d c dt dl") (simp add: download_causelist_for_complex_def)

theorem C8_all_raising_witness:
  "download_causelist_for_complex accented_letters raising_page (lit ''Delhi'') (lit ''New Delhi'') (lit ''Tis Hazari'') (lit ''2025-10-18'') True =
     (\<lparr>state = lit ''Delhi'', district = lit ''New Delhi'', complex = lit ''Tis Hazari'', date = lit ''2025-10-18'',
       judges = []\<rparr>,
      [INFO (lit ''Fetching cause list for Tis Hazari, New Delhi, Delhi on 2025-10-18''),
       ERROR (lit ''An error occurred downloading the cause list: net::ERR_NAME_NOT_RESOLVED'')])"
  using C8_always_returns_record
    [of accented_letters raising_page "lit ''Delhi''" "lit ''New Delhi''" "lit ''Tis Hazari''"
        "lit ''2025-10-18''" True]
  by (simp add: download_causelist_for_complex_def causelist_try_def causelist_navigate_def
        raising_page_def lit_def)

end
